theory Spec2Isabelle
  imports Complex_Main
begin

section \<open>eKeys: keyframe evaluation, embedded from the JavaScript source\<close>

text \<open>
  The repository holds two entry points over the same engine:
  \<^item> \<^verbatim>\<open>src/eKeys.jsx\<close>: the one-shot form \<^verbatim>\<open>eKeys.animate(inputKeyframes, options)\<close>;
  \<^item> \<^verbatim>\<open>src/unnamed/part_000\<close>: the construction form \<^verbatim>\<open>AnimGroup(inputKeyframes).anim(time)\<close>.
  Functions of the first file keep their names; functions of the second file carry the
  prefix \<open>AG_\<close>, since both files use the same names for different code. The function
  \<^verbatim>\<open>bezier\<close> is textually the same in both files and is embedded once.

  Conventions of the embedding.
  \<^item> A JavaScript number is a \<open>real\<close>: finite values with exact arithmetic. NaN, the
    infinities and rounding are outside the model.
  \<^item> An array value is a list of numbers, and two array values held by different
    keyframes are different objects, so \<^verbatim>\<open>===\<close> between them is false.
  \<^item> A raw keyframe descriptor is a plain object: the list of its own properties, with
    distinct names, in insertion order. The list of input keyframes is an array of such objects, so the
    check \<^verbatim>\<open>['.animate() input keyframes', inputKeyframes, 'array']\<close> holds by typing.
  \<^item> A \<^verbatim>\<open>throw\<close> is the left summand of the result; the constructors of \<open>error\<close>
    carry the arguments the source puts into the message template.
\<close>

subsection \<open>Values and runtime types\<close>

datatype jsval = Undefined | Null | Bool bool | Num real | Str string | Arr "real list"

type_synonym descriptor = "(string \<times> jsval) list"

text \<open>Property read \<^verbatim>\<open>key.name\<close> on a plain object: \<^verbatim>\<open>undefined\<close> when absent.\<close>

definition getProp :: "descriptor \<Rightarrow> string \<Rightarrow> jsval" where
  "getProp key name = (case map_of key name of None \<Rightarrow> Undefined | Some v \<Rightarrow> v)"

text \<open>A destructuring default \<^verbatim>\<open>{ name = d } = key\<close> applies when the property reads \<^verbatim>\<open>undefined\<close>.\<close>

definition withDefault :: "jsval \<Rightarrow> jsval \<Rightarrow> jsval" where
  "withDefault v d = (if v = Undefined then d else v)"

text \<open>\<^verbatim>\<open>getType\<close>: the lower-cased class name from \<^verbatim>\<open>Object.prototype.toString\<close>.\<close>

fun getType :: "jsval \<Rightarrow> string" where
  "getType Undefined = ''undefined''"
| "getType Null = ''null''"
| "getType (Bool b) = ''boolean''"
| "getType (Num x) = ''number''"
| "getType (Str s) = ''string''"
| "getType (Arr xs) = ''array''"

text \<open>The number held by a value that has passed the \<^verbatim>\<open>'number'\<close> type check.\<close>

fun numOf :: "jsval \<Rightarrow> real" where
  "numOf (Num x) = x"
| "numOf v = 0"

text \<open>
  \<^verbatim>\<open>a === b\<close>. Numbers, strings and booleans compare by value, arrays by identity
  (different objects, see the conventions above).
\<close>

fun strictEq :: "jsval \<Rightarrow> jsval \<Rightarrow> bool" where
  "strictEq (Arr xs) (Arr ys) = False"
| "strictEq a b = (a = b)"

subsection \<open>Errors\<close>

text \<open>An expected type is one type name or an array of type names.\<close>

datatype expected = OneType string | AnyOf "string list"

text \<open>
  What a type error is about: \<^verbatim>\<open>eKeys.jsx\<close> passes a name (a fixed string, or
  \<^verbatim>\<open>`Keyframe ${index} field`\<close>), \<^verbatim>\<open>part_000\<close> passes the checked value itself.
\<close>

datatype label = Named string | KeyframeField nat string | OfValue jsval

text \<open>The second argument of \<^verbatim>\<open>requiredArgumentError\<close>: \<^verbatim>\<open>`keyframe ${index}`\<close> or a fixed string.\<close>

datatype place = InKeyframe nat | InFunction string

datatype error =
    TypeErrorMessage label expected string
    \<comment> \<open>\<^verbatim>\<open>TypeError(`${variableName} must be of type ${expectedType}. Received ${receivedType}`)\<close>\<close>
  | RequiredArgumentError string place
    \<comment> \<open>\<^verbatim>\<open>Error(`${variableName} is required in ${functionName}`)\<close>\<close>
  | UnexpectedProperty nat "string list" bool bool
    \<comment> \<open>\<^verbatim>\<open>Error(`Unexpected property on keyframe ${index}: ${invalidPropNames.join(', ')}`\<close>
        followed by \<^verbatim>\<open>. Did you mean "keyTime"?\<close> when the first flag holds and by
        \<^verbatim>\<open>. Did you mean "keyValue"?\<close> when the second holds\<close>
  | SameTypeError nat string string
    \<comment> \<open>\<^verbatim>\<open>Error(`Keyframe ${curKeyNum} and ${curKeyNum + 1} values must be of the same type.
        Received ${getType(curKey.keyValue)} and ${getType(nextKey.keyValue)}`)\<close>\<close>
  | SameDimensionError nat nat nat
    \<comment> \<open>\<^verbatim>\<open>TypeError(`Keyframe ${curKeyNum} and ${curKeyNum + 1} values must be of the same
        dimension. Received ${startArray.length} and ${endArray.length}`)\<close>\<close>
  | BezierRangeError
    \<comment> \<open>\<^verbatim>\<open>Error('bezier x values must be in [0, 1] range')\<close>\<close>
  | HostTypeError
    \<comment> \<open>a \<^verbatim>\<open>TypeError\<close> of the JavaScript engine: a property read on \<^verbatim>\<open>undefined\<close>,
        or \<^verbatim>\<open>.map\<close> called on a number\<close>
  | OutsideNumberModel
    \<comment> \<open>no \<^verbatim>\<open>throw\<close>: the source goes on with NaN or with a coerced non-number, which
        the number model leaves out\<close>

subsection \<open>Type checks\<close>

text \<open>
  \<^verbatim>\<open>isValidType\<close>. Every call in the source passes a string or an array literal as
  the expected type, so its third branch (neither a string nor an array) has no input.
\<close>

fun isValidType :: "string \<Rightarrow> expected \<Rightarrow> bool" where
  "isValidType argumentType (OneType t) = (argumentType = t)"
| "isValidType argumentType (AnyOf ts) = (length (filter (\<lambda>ty. argumentType = ty) ts) > 0)"

text \<open>\<^verbatim>\<open>checkTypes\<close> of \<^verbatim>\<open>eKeys.jsx\<close>: entries \<^verbatim>\<open>[name, value, expectedType]\<close>, the first failure throws.\<close>

fun checkTypes :: "(label \<times> jsval \<times> expected) list \<Rightarrow> error + unit" where
  "checkTypes [] = Inr ()"
| "checkTypes ((name, v, expectedType) # rest) =
     (if \<not> isValidType (getType v) expectedType
      then Inl (TypeErrorMessage name expectedType (getType v))
      else checkTypes rest)"

text \<open>\<^verbatim>\<open>checkTypes\<close> of \<^verbatim>\<open>part_000\<close>: entries \<^verbatim>\<open>[value, expectedType]\<close>; the message names the value.\<close>

fun AG_checkTypes :: "(jsval \<times> expected) list \<Rightarrow> error + unit" where
  "AG_checkTypes [] = Inr ()"
| "AG_checkTypes ((v, expectedType) # rest) =
     (if \<not> isValidType (getType v) expectedType
      then Inl (TypeErrorMessage (OfValue v) expectedType (getType v))
      else AG_checkTypes rest)"

subsection \<open>Keyframe validation\<close>

record keyframe =
  keyTime :: real
  keyValue :: jsval
  easeIn :: real
  easeOut :: real
  velocityIn :: real
  velocityOut :: real

text \<open>
  A property read on a validated keyframe. The object literal \<^verbatim>\<open>validKey\<close> has exactly
  these six properties; any other name (those of \<^verbatim>\<open>Object.prototype\<close> aside) reads
  \<^verbatim>\<open>undefined\<close>.
\<close>

definition keyProp :: "keyframe \<Rightarrow> string \<Rightarrow> jsval" where
  "keyProp k name =
     (if name = ''keyTime'' then Num (keyTime k)
      else if name = ''keyValue'' then keyValue k
      else if name = ''easeIn'' then Num (easeIn k)
      else if name = ''easeOut'' then Num (easeOut k)
      else if name = ''velocityIn'' then Num (velocityIn k)
      else if name = ''velocityOut'' then Num (velocityOut k)
      else Undefined)"

text \<open>The names the destructuring pattern of \<^verbatim>\<open>eKeys.jsx\<close> takes out before the rest element.\<close>

definition validProps :: "string list" where
  "validProps = [''keyTime'', ''keyValue'', ''easeIn'', ''easeOut'', ''velocityIn'', ''velocityOut'']"

text \<open>
  The order in which \<^verbatim>\<open>Object.getOwnPropertyNames\<close> lists the names of an object:
  first the array indices (decimal numerals without a leading zero, up to
  \<open>2^32 - 2\<close>) in ascending numeric order, then the other names in insertion order.
  The rest element of a destructuring pattern copies the properties in that order.
\<close>

definition isDigit :: "char \<Rightarrow> bool" where
  "isDigit c = (c \<in> set ''0123456789'')"

definition indexValue :: "string \<Rightarrow> nat" where
  "indexValue s = foldl (\<lambda>n c. 10 * n + ((of_char c :: nat) - 48)) 0 s"

definition isArrayIndex :: "string \<Rightarrow> bool" where
  "isArrayIndex s =
     (s \<noteq> [] \<and> list_all isDigit s \<and> (s = ''0'' \<or> hd s \<noteq> CHR ''0'')
      \<and> indexValue s \<le> 4294967294)"

definition ownPropertyNames :: "string list \<Rightarrow> string list" where
  "ownPropertyNames names =
     sort_key indexValue (filter isArrayIndex names) @ filter (\<lambda>n. \<not> isArrayIndex n) names"

text \<open>
  \<^verbatim>\<open>validateKeyframe\<close> of \<^verbatim>\<open>eKeys.jsx\<close> (lines 239-276). The rest element
  \<^verbatim>\<open>nonValidKeyProps\<close> holds the properties the pattern does not name. \<^verbatim>\<open>x == null\<close>
  holds for \<^verbatim>\<open>undefined\<close> and \<^verbatim>\<open>null\<close>. Both missing-argument branches pass
  \<^verbatim>\<open>'keyValue'\<close>, as the source does.
\<close>

definition validateKeyframe :: "descriptor \<Rightarrow> nat \<Rightarrow> error + keyframe" where
  "validateKeyframe key index =
     (let kTime = getProp key ''keyTime'';
          kValue = getProp key ''keyValue'';
          eIn = withDefault (getProp key ''easeIn'') (Num 33);
          eOut = withDefault (getProp key ''easeOut'') (Num 33);
          vIn = withDefault (getProp key ''velocityIn'') (Num 0);
          vOut = withDefault (getProp key ''velocityOut'') (Num 0);
          nonValidKeyProps = filter (\<lambda>(n, v). n \<notin> set validProps) key;
          invalidPropNames = ownPropertyNames (map fst nonValidKeyProps)
      in if length invalidPropNames \<noteq> 0
         then Inl (UnexpectedProperty index invalidPropNames
                     (''time'' \<in> set invalidPropNames) (''value'' \<in> set invalidPropNames))
         else if kTime = Undefined \<or> kTime = Null
         then Inl (RequiredArgumentError ''keyValue'' (InKeyframe index))
         else if kValue = Undefined \<or> kValue = Null
         then Inl (RequiredArgumentError ''keyValue'' (InKeyframe index))
         else (case checkTypes
                 [(KeyframeField index ''time'', kTime, OneType ''number''),
                  (KeyframeField index ''value'', kValue, AnyOf [''number'', ''array'']),
                  (KeyframeField index ''easeIn'', eIn, OneType ''number''),
                  (KeyframeField index ''easeOut'', eOut, OneType ''number''),
                  (KeyframeField index ''velocityIn'', vIn, OneType ''number''),
                  (KeyframeField index ''velocityOut'', vOut, OneType ''number'')] of
                 Inl e \<Rightarrow> Inl e
               | Inr u \<Rightarrow>
                   Inr \<lparr>keyTime = numOf kTime, keyValue = kValue, easeIn = numOf eIn,
                        easeOut = numOf eOut, velocityIn = numOf vIn, velocityOut = numOf vOut\<rparr>))"

text \<open>
  \<^verbatim>\<open>validateKeyframe\<close> of \<^verbatim>\<open>part_000\<close> (lines 52-84). The defaults of \<^verbatim>\<open>keyTime\<close> and
  \<^verbatim>\<open>keyValue\<close> are calls of \<^verbatim>\<open>requiredArgumentError\<close>, evaluated in pattern order when
  the property reads \<^verbatim>\<open>undefined\<close>. The pattern has no rest element: other properties
  are not looked at.
\<close>

definition AG_validateKeyframe :: "descriptor \<Rightarrow> nat \<Rightarrow> error + keyframe" where
  "AG_validateKeyframe key index =
     (let kTime = getProp key ''keyTime'';
          kValue = getProp key ''keyValue'';
          eIn = withDefault (getProp key ''easeIn'') (Num 33);
          eOut = withDefault (getProp key ''easeOut'') (Num 33);
          vIn = withDefault (getProp key ''velocityIn'') (Num 0);
          vOut = withDefault (getProp key ''velocityOut'') (Num 0)
      in if kTime = Undefined
         then Inl (RequiredArgumentError ''keyTime'' (InKeyframe index))
         else if kValue = Undefined
         then Inl (RequiredArgumentError ''keyValue'' (InKeyframe index))
         else (case AG_checkTypes
                 [(kTime, OneType ''number''),
                  (kValue, AnyOf [''number'', ''array'']),
                  (eIn, OneType ''number''),
                  (eOut, OneType ''number''),
                  (vIn, OneType ''number''),
                  (vOut, OneType ''number'')] of
                 Inl e \<Rightarrow> Inl e
               | Inr u \<Rightarrow>
                   Inr \<lparr>keyTime = numOf kTime, keyValue = kValue, easeIn = numOf eIn,
                        easeOut = numOf eOut, velocityIn = numOf vIn, velocityOut = numOf vOut\<rparr>))"

text \<open>
  \<^verbatim>\<open>inputKeyframes.map((key, index) => validateKeyframe(key, index))\<close>, from index \<open>i\<close> on:
  the first keyframe that fails aborts the whole map.
\<close>

fun validateFrom :: "(descriptor \<Rightarrow> nat \<Rightarrow> error + keyframe) \<Rightarrow> nat \<Rightarrow> descriptor list
    \<Rightarrow> error + keyframe list" where
  "validateFrom validate i [] = Inr []"
| "validateFrom validate i (key # rest) =
     (case validate key i of
        Inl e \<Rightarrow> Inl e
      | Inr k \<Rightarrow> (case validateFrom validate (Suc i) rest of
                    Inl e \<Rightarrow> Inl e
                  | Inr ks \<Rightarrow> Inr (k # ks)))"

text \<open>
  The validated keys, sorted with the comparator \<^verbatim>\<open>(a, b) => a.keyTime - b.keyTime\<close>.
  \<^verbatim>\<open>Array.prototype.sort\<close> is stable, as is \<open>sort_key\<close>.
\<close>

definition validKeys :: "(descriptor \<Rightarrow> nat \<Rightarrow> error + keyframe) \<Rightarrow> descriptor list
    \<Rightarrow> error + keyframe list" where
  "validKeys validate inputKeyframes =
     (case validateFrom validate 0 inputKeyframes of
        Inl e \<Rightarrow> Inl e
      | Inr ks \<Rightarrow> Inr (sort_key keyTime ks))"

subsection \<open>The easing solver\<close>

text \<open>
  \<^verbatim>\<open>bezier\<close> (\<^verbatim>\<open>eKeys.jsx\<close> lines 141-235, \<^verbatim>\<open>part_000\<close> lines 93-219). The coefficient
  functions \<^verbatim>\<open>A\<close>, \<^verbatim>\<open>B\<close>, \<^verbatim>\<open>C\<close> of the source are \<open>coefA\<close>, \<open>coefB\<close>, \<open>coefC\<close>. The
  sample table holds the values unrounded (the source stores them in a
  \<^verbatim>\<open>Float32Array\<close> where the host has one).
\<close>

definition NEWTON_ITERATIONS :: nat where "NEWTON_ITERATIONS = 4"
definition NEWTON_MIN_SLOPE :: real where "NEWTON_MIN_SLOPE = 0.001"
definition SUBDIVISION_PRECISION :: real where "SUBDIVISION_PRECISION = 0.0000001"
definition SUBDIVISION_MAX_ITERATIONS :: nat where "SUBDIVISION_MAX_ITERATIONS = 10"
definition kSplineTableSize :: nat where "kSplineTableSize = 11"
definition kSampleStepSize :: real where "kSampleStepSize = 1.0 / (real kSplineTableSize - 1.0)"

definition coefA :: "real \<Rightarrow> real \<Rightarrow> real" where
  "coefA aA1 aA2 = 1.0 - 3.0 * aA2 + 3.0 * aA1"

definition coefB :: "real \<Rightarrow> real \<Rightarrow> real" where
  "coefB aA1 aA2 = 3.0 * aA2 - 6.0 * aA1"

definition coefC :: "real \<Rightarrow> real" where
  "coefC aA1 = 3.0 * aA1"

definition calcBezier :: "real \<Rightarrow> real \<Rightarrow> real \<Rightarrow> real" where
  "calcBezier aT aA1 aA2 = ((coefA aA1 aA2 * aT + coefB aA1 aA2) * aT + coefC aA1) * aT"

definition getSlope :: "real \<Rightarrow> real \<Rightarrow> real \<Rightarrow> real" where
  "getSlope aT aA1 aA2 =
     3.0 * coefA aA1 aA2 * aT * aT + 2.0 * coefB aA1 aA2 * aT + coefC aA1"

text \<open>The do-while loop of \<^verbatim>\<open>binarySubdivide\<close>; \<open>i\<close> is the loop counter, 0 at entry.\<close>

function binarySubdivideLoop :: "real \<Rightarrow> real \<Rightarrow> real \<Rightarrow> real \<Rightarrow> real \<Rightarrow> nat \<Rightarrow> real" where
  "binarySubdivideLoop aX aA aB mX1 mX2 i =
     (if \<bar>calcBezier (aA + (aB - aA) / 2.0) mX1 mX2 - aX\<bar> > SUBDIVISION_PRECISION
         \<and> Suc i < SUBDIVISION_MAX_ITERATIONS
      then (if calcBezier (aA + (aB - aA) / 2.0) mX1 mX2 - aX > 0.0
            then binarySubdivideLoop aX aA (aA + (aB - aA) / 2.0) mX1 mX2 (Suc i)
            else binarySubdivideLoop aX (aA + (aB - aA) / 2.0) aB mX1 mX2 (Suc i))
      else aA + (aB - aA) / 2.0)"
  by pat_completeness auto
termination
  by (relation "measure (\<lambda>(aX, aA, aB, mX1, mX2, i). SUBDIVISION_MAX_ITERATIONS - i)") auto

declare binarySubdivideLoop.simps [simp del]

definition binarySubdivide :: "real \<Rightarrow> real \<Rightarrow> real \<Rightarrow> real \<Rightarrow> real \<Rightarrow> real" where
  "binarySubdivide aX aA aB mX1 mX2 = binarySubdivideLoop aX aA aB mX1 mX2 0"

text \<open>The for loop of \<^verbatim>\<open>newtonRaphsonIterate\<close>, from counter \<open>i\<close> on.\<close>

function newtonRaphsonLoop :: "real \<Rightarrow> real \<Rightarrow> real \<Rightarrow> real \<Rightarrow> nat \<Rightarrow> real" where
  "newtonRaphsonLoop aX aGuessT mX1 mX2 i =
     (if i < NEWTON_ITERATIONS
      then (if getSlope aGuessT mX1 mX2 = 0.0 then aGuessT
            else newtonRaphsonLoop aX
                   (aGuessT - (calcBezier aGuessT mX1 mX2 - aX) / getSlope aGuessT mX1 mX2)
                   mX1 mX2 (Suc i))
      else aGuessT)"
  by pat_completeness auto
termination
  by (relation "measure (\<lambda>(aX, aGuessT, mX1, mX2, i). NEWTON_ITERATIONS - i)") auto

declare newtonRaphsonLoop.simps [simp del]

definition newtonRaphsonIterate :: "real \<Rightarrow> real \<Rightarrow> real \<Rightarrow> real \<Rightarrow> real" where
  "newtonRaphsonIterate aX aGuessT mX1 mX2 = newtonRaphsonLoop aX aGuessT mX1 mX2 0"

text \<open>\<^verbatim>\<open>sampleValues[i] = calcBezier(i * kSampleStepSize, mX1, mX2)\<close> for \<open>i\<close> below the table size.\<close>

definition sampleValues :: "real \<Rightarrow> real \<Rightarrow> real list" where
  "sampleValues mX1 mX2 =
     map (\<lambda>i. calcBezier (real i * kSampleStepSize) mX1 mX2) [0..<kSplineTableSize]"

text \<open>
  The for loop of \<^verbatim>\<open>getTForX\<close> over \<open>(intervalStart, currentSample)\<close>. A read past the
  table gives \<^verbatim>\<open>undefined\<close>, and \<^verbatim>\<open>undefined <= aX\<close> is false.
\<close>

function sampleLoop :: "real list \<Rightarrow> real \<Rightarrow> real \<Rightarrow> nat \<Rightarrow> real \<times> nat" where
  "sampleLoop table aX intervalStart currentSample =
     (if currentSample \<noteq> kSplineTableSize - 1 \<and> currentSample < length table
         \<and> table ! currentSample \<le> aX
      then sampleLoop table aX (intervalStart + kSampleStepSize) (Suc currentSample)
      else (intervalStart, currentSample))"
  by pat_completeness auto
termination
  by (relation "measure (\<lambda>(table, aX, intervalStart, currentSample). length table - currentSample)")
    auto

declare sampleLoop.simps [simp del]

definition getTForX :: "real \<Rightarrow> real \<Rightarrow> real \<Rightarrow> real" where
  "getTForX mX1 mX2 aX =
     (let table = sampleValues mX1 mX2;
          (intervalStart, lastVisited) = sampleLoop table aX 0.0 1;
          currentSample = lastVisited - 1;
          dist = (aX - table ! currentSample)
                   / (table ! (currentSample + 1) - table ! currentSample);
          guessForT = intervalStart + dist * kSampleStepSize;
          initialSlope = getSlope guessForT mX1 mX2
      in if initialSlope \<ge> NEWTON_MIN_SLOPE then newtonRaphsonIterate aX guessForT mX1 mX2
         else if initialSlope = 0.0 then guessForT
         else binarySubdivide aX intervalStart (intervalStart + kSampleStepSize) mX1 mX2)"

definition LinearEasing :: "real \<Rightarrow> real" where
  "LinearEasing x = x"

definition bezierEasing :: "real \<Rightarrow> real \<Rightarrow> real \<Rightarrow> real \<Rightarrow> real \<Rightarrow> real" where
  "bezierEasing mX1 mY1 mX2 mY2 x =
     (if x = 0 then 0 else if x = 1 then 1 else calcBezier (getTForX mX1 mX2 x) mY1 mY2)"

text \<open>
  \<^verbatim>\<open>bezier(mX1, mY1, mX2, mY2)\<close>: the range check, then the linear shortcut, and only
  then the table and the solver (which live inside \<open>bezierEasing\<close>).
\<close>

definition bezier :: "real \<Rightarrow> real \<Rightarrow> real \<Rightarrow> real \<Rightarrow> error + (real \<Rightarrow> real)" where
  "bezier mX1 mY1 mX2 mY2 =
     (if \<not> (mX1 \<ge> 0 \<and> mX1 \<le> 1 \<and> mX2 \<ge> 0 \<and> mX2 \<le> 1) then Inl BezierRangeError
      else if mX1 = mY1 \<and> mX2 = mY2 then Inr LinearEasing
      else Inr (bezierEasing mX1 mY1 mX2 mY2))"

subsection \<open>Locating the current keyframe\<close>

text \<open>
  The loop \<^verbatim>\<open>while (curKeyNum < lastKeyNum && time >= keys[curKeyNum + 1].keyTime) curKeyNum++\<close>
  (\<^verbatim>\<open>getCurrentKeyNum\<close> in \<^verbatim>\<open>eKeys.jsx\<close>, inline in \<^verbatim>\<open>part_000\<close>), from \<open>curKeyNum\<close> on.
  The first conjunct keeps the read in range.
\<close>

function getCurrentKeyNumLoop :: "keyframe list \<Rightarrow> real \<Rightarrow> nat \<Rightarrow> nat" where
  "getCurrentKeyNumLoop keys time curKeyNum =
     (if curKeyNum < length keys - 1 \<and> time \<ge> keyTime (keys ! (curKeyNum + 1))
      then getCurrentKeyNumLoop keys time (Suc curKeyNum)
      else curKeyNum)"
  by pat_completeness auto
termination
  by (relation "measure (\<lambda>(keys, time, curKeyNum). length keys - 1 - curKeyNum)") auto

declare getCurrentKeyNumLoop.simps [simp del]

definition getCurrentKeyNum :: "keyframe list \<Rightarrow> real \<Rightarrow> nat" where
  "getCurrentKeyNum keys time = getCurrentKeyNumLoop keys time 0"

subsection \<open>The one-shot form: \<^verbatim>\<open>eKeys.animate\<close>\<close>

text \<open>\<^verbatim>\<open>animateValueFromProgress\<close> (the same in both files).\<close>

definition animateValueFromProgress :: "real \<Rightarrow> real \<Rightarrow> real \<Rightarrow> real" where
  "animateValueFromProgress startVal endVal progressAmount =
     (let valueDelta = endVal - startVal in startVal + valueDelta * progressAmount)"

text \<open>
  \<^verbatim>\<open>animateArrayFromProgress\<close> of \<^verbatim>\<open>eKeys.jsx\<close> (lines 112-133); \<open>curKeyNum\<close> is the
  variable of the enclosing function that the message reads.
\<close>

definition animateArrayFromProgress :: "nat \<Rightarrow> real list \<Rightarrow> real list \<Rightarrow> real \<Rightarrow> error + jsval" where
  "animateArrayFromProgress curKeyNum startArray endArray progressAmount =
     (if length startArray \<noteq> length endArray
      then Inl (SameDimensionError curKeyNum (length startArray) (length endArray))
      else
        (let arrayDelta =
               map (\<lambda>(dimension, index). dimension - startArray ! index)
                 (zip endArray [0..<length endArray]);
             deltaProgressed = map (\<lambda>item. item * progressAmount) arrayDelta
         in Inr (Arr (map (\<lambda>(item, index). item + deltaProgressed ! index)
                        (zip startArray [0..<length startArray])))))"

text \<open>
  The custom interpolator of the options, when given, is a pure function of three
  numbers. \<open>linear_interpolator\<close> is \<^verbatim>\<open>linear\<close>, the first entry of the table
  \<^verbatim>\<open>interpolators\<close>, which reads its first argument only (the name \<open>linear\<close> is taken by
  a constant of the library). The other entries of the table are not embedded.
\<close>

type_synonym interpolator = "real \<Rightarrow> real \<Rightarrow> real \<Rightarrow> real"

definition linear_interpolator :: interpolator where
  "linear_interpolator t eOut eIn = t"

text \<open>
  \<^verbatim>\<open>animateBetweenKeys(keys, time)\<close> of \<^verbatim>\<open>eKeys.jsx\<close> (lines 51-101); \<open>interp\<close> is the
  variable \<^verbatim>\<open>interpolator\<close> of the enclosing \<^verbatim>\<open>animate\<close>. On an empty list
  \<^verbatim>\<open>firstKey\<close> is \<^verbatim>\<open>undefined\<close> and \<^verbatim>\<open>firstKey.keyTime\<close> throws; likewise a next key past
  the end. On sorted keys the segment that is found has a positive length, so the
  division is by a positive number.
\<close>

definition animateBetweenKeys :: "interpolator option \<Rightarrow> keyframe list \<Rightarrow> real \<Rightarrow> error + jsval" where
  "animateBetweenKeys interp keys time =
     (if keys = [] then Inl HostTypeError
      else
        (let lastKey = keys ! (length keys - 1);
             firstKey = keys ! 0
         in if time \<le> keyTime firstKey then Inr (keyValue firstKey)
            else if time \<ge> keyTime lastKey then Inr (keyValue lastKey)
            else
              (let curKeyNum = getCurrentKeyNum keys time
               in if \<not> curKeyNum + 1 < length keys then Inl HostTypeError
                  else
                    (let curKey = keys ! curKeyNum;
                         nextKey = keys ! (curKeyNum + 1)
                     in if strictEq (keyValue curKey) (keyValue nextKey) then Inr (keyValue curKey)
                        else if time = keyTime curKey then Inr (keyValue curKey)
                        else
                          (let movedTime = max (time - keyTime curKey) 0;
                               animationLength = keyTime nextKey - keyTime curKey;
                               linearProgress = min 1 (movedTime / animationLength)
                           in case (case interp of
                                      Some f \<Rightarrow> Inr (f linearProgress (easeOut curKey) (easeIn nextKey))
                                    | None \<Rightarrow>
                                        (case bezier (easeOut curKey / 100) (velocityOut curKey / 100)
                                                (1 - easeIn nextKey / 100) (1 - velocityIn nextKey / 100) of
                                           Inl e \<Rightarrow> Inl e
                                         | Inr easing \<Rightarrow> Inr (easing linearProgress))) of
                                Inl e \<Rightarrow> Inl e
                              | Inr easedProgress \<Rightarrow>
                                  (case (keyValue curKey, keyValue nextKey) of
                                     (Arr startArray, Arr endArray) \<Rightarrow>
                                       animateArrayFromProgress curKeyNum startArray endArray easedProgress
                                   | (Num startVal, Num endVal) \<Rightarrow>
                                       Inr (Num (animateValueFromProgress startVal endVal easedProgress))
                                   | (a, b) \<Rightarrow> Inl (SameTypeError curKeyNum (getType a) (getType b))))))))"

text \<open>
  The options object: \<^verbatim>\<open>inputTime\<close> reads \<^verbatim>\<open>undefined\<close> when absent, \<^verbatim>\<open>interpolator\<close> is
  \<open>None\<close> when absent.
\<close>

record options =
  inputTime :: jsval
  interpolator :: "interpolator option"

text \<open>
  \<^verbatim>\<open>animate(inputKeyframes, options = { inputTime: thisLayer.time })\<close> (lines 37-48).
  \<open>thisLayerTime\<close> is the host global \<^verbatim>\<open>thisLayer.time\<close>; \<open>None\<close> is an omitted second
  argument.
\<close>

definition animate :: "jsval \<Rightarrow> descriptor list \<Rightarrow> options option \<Rightarrow> error + jsval" where
  "animate thisLayerTime inputKeyframes opts =
     (let given = (case opts of
                     None \<Rightarrow> \<lparr>inputTime = thisLayerTime, interpolator = None\<rparr>
                   | Some g \<Rightarrow> g);
          time = withDefault (inputTime given) thisLayerTime
      in case checkTypes [(Named ''.animate() input time'', time, OneType ''number'')] of
           Inl e \<Rightarrow> Inl e
         | Inr u \<Rightarrow>
             (case validKeys validateKeyframe inputKeyframes of
                Inl e \<Rightarrow> Inl e
              | Inr keys \<Rightarrow> animateBetweenKeys (interpolator given) keys (numOf time)))"

subsection \<open>The construction form: \<^verbatim>\<open>AnimGroup\<close>\<close>

text \<open>
  \<^verbatim>\<open>animateArrayFromProgress\<close> of \<^verbatim>\<open>part_000\<close> (lines 276-285), reached when either value
  is an array. It has no length check. With a longer end array the extra entries are
  dropped; with a longer start array the sum reads \<^verbatim>\<open>undefined\<close> and gives NaN; with a
  number on either side \<^verbatim>\<open>.map\<close> is not a function.
\<close>

fun AG_animateArrayFromProgress :: "jsval \<Rightarrow> jsval \<Rightarrow> real \<Rightarrow> error + jsval" where
  "AG_animateArrayFromProgress (Arr startArray) (Arr endArray) progressAmount =
     (if length startArray \<le> length endArray
      then Inr (Arr (map (\<lambda>(item, index). item + (endArray ! index - startArray ! index) * progressAmount)
                       (zip startArray [0..<length startArray])))
      else Inl OutsideNumberModel)"
| "AG_animateArrayFromProgress startArray endArray progressAmount = Inl HostTypeError"

text \<open>
  \<^verbatim>\<open>animateValueFromProgress\<close> of \<^verbatim>\<open>part_000\<close> on the values as they come: validation
  leaves numbers and arrays only, and the arithmetic on anything else is a coercion.
\<close>

fun AG_animateValueFromProgress :: "jsval \<Rightarrow> jsval \<Rightarrow> real \<Rightarrow> error + jsval" where
  "AG_animateValueFromProgress (Num startVal) (Num endVal) progressAmount =
     Inr (Num (animateValueFromProgress startVal endVal progressAmount))"
| "AG_animateValueFromProgress startVal endVal progressAmount = Inl OutsideNumberModel"

fun isArray :: "jsval \<Rightarrow> bool" where
  "isArray (Arr xs) = True"
| "isArray v = False"

text \<open>
  \<^verbatim>\<open>animateBetweenKeys(time)\<close> of \<^verbatim>\<open>part_000\<close> (lines 222-297), the function published as
  \<^verbatim>\<open>anim\<close>; \<open>keys\<close> is the sorted list the constructor has built. The shortcut at lines
  249-251 reads the property \<^verbatim>\<open>value\<close> of both keys, as the source does.
\<close>

definition AG_animateBetweenKeys :: "keyframe list \<Rightarrow> jsval \<Rightarrow> error + jsval" where
  "AG_animateBetweenKeys keys timeArg =
     (if timeArg = Undefined then Inl (RequiredArgumentError ''time'' (InFunction ''.anim inputs''))
      else
        (case AG_checkTypes [(timeArg, OneType ''number'')] of
           Inl e \<Rightarrow> Inl e
         | Inr u \<Rightarrow>
             (if keys = [] then Inl HostTypeError
              else
                (let time = numOf timeArg;
                     lastKeyNum = length keys - 1;
                     lastKey = keys ! lastKeyNum
                 in if time \<le> keyTime (keys ! 0) then Inr (keyValue (keys ! 0))
                    else if time \<ge> keyTime lastKey then Inr (keyValue lastKey)
                    else
                      (let curKeyNum = getCurrentKeyNumLoop keys time 0
                       in if \<not> curKeyNum + 1 < length keys then Inl HostTypeError
                          else
                            (let curKey = keys ! curKeyNum;
                                 nextKey = keys ! (curKeyNum + 1)
                             in if strictEq (keyProp curKey ''value'') (keyProp nextKey ''value'')
                                then Inr (keyProp curKey ''value'')
                                else
                                  (case bezier (easeOut curKey / 100) (velocityOut curKey / 100)
                                          (1 - easeIn nextKey / 100) (1 - velocityIn nextKey / 100) of
                                     Inl e \<Rightarrow> Inl e
                                   | Inr easingCurve \<Rightarrow>
                                       (let deltaT = keyTime nextKey - keyTime curKey;
                                            movedTime = max (time - keyTime curKey) 0;
                                            timeInput = min 1 (movedTime / deltaT);
                                            progress = easingCurve timeInput
                                        in if isArray (keyValue curKey) \<or> isArray (keyValue nextKey)
                                           then AG_animateArrayFromProgress (keyValue curKey)
                                                  (keyValue nextKey) progress
                                           else AG_animateValueFromProgress (keyValue curKey)
                                                  (keyValue nextKey) progress))))))))"

text \<open>
  \<^verbatim>\<open>AnimGroup(inputKeyframes)\<close>: validation and sorting happen once, in the constructor;
  the result stands for the object \<^verbatim>\<open>{ anim }\<close> closed over \<open>keys\<close>.
\<close>

definition AnimGroup :: "descriptor list \<Rightarrow> error + keyframe list" where
  "AnimGroup inputKeyframes = validKeys AG_validateKeyframe inputKeyframes"

text \<open>\<^verbatim>\<open>AnimGroup(inputKeyframes).anim(time)\<close>.\<close>

definition AnimGroup_anim :: "descriptor list \<Rightarrow> jsval \<Rightarrow> error + jsval" where
  "AnimGroup_anim inputKeyframes timeArg =
     (case AnimGroup inputKeyframes of
        Inl e \<Rightarrow> Inl e
      | Inr keys \<Rightarrow> AG_animateBetweenKeys keys timeArg)"

section \<open>Properties\<close>

subsection \<open>Auxiliary facts\<close>

text \<open>Listing the names reorders them and neither adds nor drops one.\<close>

lemma ownPropertyNames_Nil [simp]: "ownPropertyNames [] = []"
  by (simp add: ownPropertyNames_def)

lemma set_ownPropertyNames: "set (ownPropertyNames names) = set names"
  by (auto simp: ownPropertyNames_def)

lemma ownPropertyNames_eq_Nil: "(ownPropertyNames names = []) = (names = [])"
  using set_ownPropertyNames [of names] by (metis set_empty)

lemma rest_names: "map fst (filter (\<lambda>(n, v). P n) key) = filter P (map fst key)"
  by (induction key) auto

text \<open>Below the last index the loop stops below it, so the next key exists.\<close>

lemma loop_below_last:
  "c < length keys - 1 \<Longrightarrow> t < keyTime (keys ! (length keys - 1)) \<Longrightarrow>
   getCurrentKeyNumLoop keys t c < length keys - 1"
proof (induction keys t c rule: getCurrentKeyNumLoop.induct)
  case (1 keys time curKeyNum)
  show ?case
  proof (cases "curKeyNum < length keys - 1 \<and> time \<ge> keyTime (keys ! (curKeyNum + 1))")
    case True
    with "1.prems" have "Suc curKeyNum \<noteq> length keys - 1" by auto
    with True have "Suc curKeyNum < length keys - 1" by simp
    with "1.IH" True "1.prems" have "getCurrentKeyNumLoop keys time (Suc curKeyNum) < length keys - 1"
      by simp
    with True show ?thesis by (subst getCurrentKeyNumLoop.simps) simp
  next
    case False
    with "1.prems" show ?thesis by (subst getCurrentKeyNumLoop.simps) simp
  qed
qed

text \<open>On a list sorted by key time the loop stops at the segment that holds the time.\<close>

lemma loop_finds_segment:
  "sorted (map keyTime keys) \<Longrightarrow> Suc c < length keys \<Longrightarrow> j \<le> c \<Longrightarrow>
   keyTime (keys ! c) \<le> t \<Longrightarrow> t < keyTime (keys ! Suc c) \<Longrightarrow>
   getCurrentKeyNumLoop keys t j = c"
proof (induction keys t j rule: getCurrentKeyNumLoop.induct)
  case (1 keys time curKeyNum)
  show ?case
  proof (cases "curKeyNum = c")
    case True
    with "1.prems" show ?thesis by (subst getCurrentKeyNumLoop.simps) simp
  next
    case False
    with "1.prems" have lt: "Suc curKeyNum \<le> c" by simp
    with "1.prems" have "keyTime (keys ! Suc curKeyNum) \<le> keyTime (keys ! c)"
      using sorted_nth_mono [of "map keyTime keys" "Suc curKeyNum" c] by simp
    with "1.prems" have ge: "time \<ge> keyTime (keys ! (curKeyNum + 1))" by simp
    from lt "1.prems" have inr: "curKeyNum < length keys - 1" by simp
    from "1.IH" inr ge lt "1.prems" have "getCurrentKeyNumLoop keys time (Suc curKeyNum) = c"
      by simp
    with inr ge show ?thesis by (subst getCurrentKeyNumLoop.simps) simp
  qed
qed

lemma validKeys_sorted: "validKeys validate ds = Inr keys \<Longrightarrow> sorted (map keyTime keys)"
  by (auto simp: validKeys_def split: sum.splits)

text \<open>What a query inside segment \<open>c\<close> of a sorted list finds.\<close>

lemma segment_facts:
  assumes "sorted (map keyTime keys)" and "Suc c < length keys"
    and "keyTime (keys ! c) \<le> t" and "t < keyTime (keys ! Suc c)"
    and "keyTime (keys ! 0) < t"
  shows "keys \<noteq> []"
    and "\<not> t \<le> keyTime (keys ! 0)"
    and "\<not> keyTime (keys ! (length keys - 1)) \<le> t"
    and "getCurrentKeyNumLoop keys t 0 = c"
proof -
  from assms(2) show "keys \<noteq> []" by auto
  from assms(5) show "\<not> t \<le> keyTime (keys ! 0)" by simp
  from assms(1,2) have "keyTime (keys ! Suc c) \<le> keyTime (keys ! (length keys - 1))"
    using sorted_nth_mono [of "map keyTime keys" "Suc c" "length keys - 1"] by simp
  with assms(4) show "\<not> keyTime (keys ! (length keys - 1)) \<le> t" by simp
  from assms(1-4) show "getCurrentKeyNumLoop keys t 0 = c"
    by (intro loop_finds_segment) simp_all
qed

text \<open>The entry points, once validation has produced the sorted keys.\<close>

lemma animate_validated:
  "validKeys validateKeyframe ds = Inr keys \<Longrightarrow>
   animate host ds (Some \<lparr>inputTime = Num t, interpolator = ip\<rparr>) = animateBetweenKeys ip keys t"
  by (simp add: animate_def withDefault_def)

lemma AnimGroup_anim_validated:
  "AnimGroup ds = Inr keys \<Longrightarrow> AnimGroup_anim ds timeArg = AG_animateBetweenKeys keys timeArg"
  by (simp add: AnimGroup_anim_def)

text \<open>A validated key has no property named \<^verbatim>\<open>value\<close>.\<close>

lemma keyProp_value: "keyProp k ''value'' = Undefined"
  by (simp add: keyProp_def)

lemma AG_interior_undefined:
  assumes "keys \<noteq> []" and "keyTime (keys ! 0) < t" and "t < keyTime (keys ! (length keys - 1))"
  shows "AG_animateBetweenKeys keys (Num t) = Inr Undefined"
proof -
  have "length keys \<noteq> 1"
  proof
    assume "length keys = 1"
    with assms(2,3) show False by simp
  qed
  with assms(1) have pos: "0 < length keys - 1" by (cases keys) simp_all
  from pos assms(3) have "getCurrentKeyNumLoop keys t 0 < length keys - 1"
    by (rule loop_below_last)
  then have "getCurrentKeyNumLoop keys t 0 + 1 < length keys" by simp
  with assms show ?thesis
    by (simp add: AG_animateBetweenKeys_def Let_def keyProp_value)
qed

text \<open>Boundary returns of both forms, on any non-empty list of keys.\<close>

lemma animateBetweenKeys_first:
  "keys \<noteq> [] \<Longrightarrow> t \<le> keyTime (hd keys) \<Longrightarrow> animateBetweenKeys ip keys t = Inr (keyValue (hd keys))"
  by (simp add: animateBetweenKeys_def Let_def hd_conv_nth)

lemma animateBetweenKeys_last:
  "keys \<noteq> [] \<Longrightarrow> keyTime (hd keys) < t \<Longrightarrow> keyTime (last keys) \<le> t \<Longrightarrow>
   animateBetweenKeys ip keys t = Inr (keyValue (last keys))"
  by (simp add: animateBetweenKeys_def Let_def hd_conv_nth last_conv_nth)

lemma AG_animateBetweenKeys_first:
  "keys \<noteq> [] \<Longrightarrow> t \<le> keyTime (hd keys) \<Longrightarrow>
   AG_animateBetweenKeys keys (Num t) = Inr (keyValue (hd keys))"
  by (simp add: AG_animateBetweenKeys_def Let_def hd_conv_nth)

lemma AG_animateBetweenKeys_last:
  "keys \<noteq> [] \<Longrightarrow> keyTime (hd keys) < t \<Longrightarrow> keyTime (last keys) \<le> t \<Longrightarrow>
   AG_animateBetweenKeys keys (Num t) = Inr (keyValue (last keys))"
  by (simp add: AG_animateBetweenKeys_def Let_def hd_conv_nth last_conv_nth)

text \<open>The construction form reads the six known properties only.\<close>

lemma getProp_filter:
  "P name \<Longrightarrow> getProp (filter (\<lambda>(n, v). P n) key) name = getProp key name"
  by (induction key) (auto simp: getProp_def)

lemma AG_validateKeyframe_ignores_extras:
  "AG_validateKeyframe (filter (\<lambda>(n, v). n \<in> set validProps) key) index = AG_validateKeyframe key index"
proof -
  have "getProp (filter (\<lambda>(n, v). n \<in> set validProps) key) name = getProp key name"
    if "name \<in> set validProps" for name
    using that by (rule getProp_filter [of "\<lambda>n. n \<in> set validProps"])
  then show ?thesis by (simp add: AG_validateKeyframe_def validProps_def)
qed

text \<open>
  In the construction form a descriptor whose \<^verbatim>\<open>keyTime\<close> reads \<^verbatim>\<open>undefined\<close> is rejected
  with a message that names \<^verbatim>\<open>keyTime\<close> and the index, whatever else it holds.
\<close>

lemma AG_validateKeyframe_missing_keyTime:
  "getProp key ''keyTime'' = Undefined \<Longrightarrow>
   AG_validateKeyframe key index = Inl (RequiredArgumentError ''keyTime'' (InKeyframe index))"
  by (simp add: AG_validateKeyframe_def)

text \<open>
  In the one-shot form a descriptor with known properties only whose \<^verbatim>\<open>keyTime\<close> is
  \<^verbatim>\<open>undefined\<close> or \<^verbatim>\<open>null\<close> is rejected with a message that names \<^verbatim>\<open>keyValue\<close>.
\<close>

lemma validateKeyframe_missing_keyTime:
  "set (map fst key) \<subseteq> set validProps \<Longrightarrow>
   getProp key ''keyTime'' = Undefined \<or> getProp key ''keyTime'' = Null \<Longrightarrow>
   validateKeyframe key index = Inl (RequiredArgumentError ''keyValue'' (InKeyframe index))"
proof -
  assume a: "set (map fst key) \<subseteq> set validProps"
    and b: "getProp key ''keyTime'' = Undefined \<or> getProp key ''keyTime'' = Null"
  from a have "filter (\<lambda>n. n \<notin> set validProps) (map fst key) = []"
    by (auto simp: filter_empty_conv)
  then have "map fst (filter (\<lambda>(n, v). n \<notin> set validProps) key) = []"
    by (simp only: rest_names)
  with b show ?thesis by (auto simp: validateKeyframe_def Let_def)
qed

subsection \<open>Validation errors\<close>

text \<open>
  C1. In the one-shot form the descriptor \<^verbatim>\<open>{keyValue: 5}\<close> at index 0 is rejected with
  the message \<^verbatim>\<open>keyValue is required in keyframe 0\<close>: the branch for a missing
  \<^verbatim>\<open>keyTime\<close> (line 252) passes the name \<^verbatim>\<open>'keyValue'\<close>. The construction form names
  \<^verbatim>\<open>keyTime\<close> on the same input.
\<close>

theorem validateKeyframe_missing_keyTime_names_keyValue:
  "validateKeyframe [(''keyValue'', Num 5)] 0 = Inl (RequiredArgumentError ''keyValue'' (InKeyframe 0))
   \<and> AG_validateKeyframe [(''keyValue'', Num 5)] 0 = Inl (RequiredArgumentError ''keyTime'' (InKeyframe 0))"
  by (simp add: validateKeyframe_def AG_validateKeyframe_def getProp_def withDefault_def validProps_def)

text \<open>
  C7. The descriptor \<^verbatim>\<open>{keyTime: 0, keyValue: 0, time: 1}\<close> at index 0: the one-shot form
  rejects it with the unexpected-property error that lists \<^verbatim>\<open>time\<close> and carries the
  hint for \<^verbatim>\<open>keyTime\<close>; the construction form validates it without an error, since the
  pattern of \<^verbatim>\<open>part_000\<close> (lines 54-61) lacks the rest element and the test that
  \<^verbatim>\<open>eKeys.jsx\<close> (lines 241-248) has.
\<close>

theorem extra_field_one_shot_rejects_construction_accepts:
  "validateKeyframe [(''keyTime'', Num 0), (''keyValue'', Num 0), (''time'', Num 1)] 0 =
     Inl (UnexpectedProperty 0 [''time''] True False)
   \<and> AG_validateKeyframe [(''keyTime'', Num 0), (''keyValue'', Num 0), (''time'', Num 1)] 0 =
     Inr \<lparr>keyTime = 0, keyValue = Num 0, easeIn = 33, easeOut = 33, velocityIn = 0, velocityOut = 0\<rparr>"
  by (simp add: validateKeyframe_def AG_validateKeyframe_def getProp_def withDefault_def
      validProps_def ownPropertyNames_def isArrayIndex_def isDigit_def)

text \<open>
  In the one-shot form every descriptor with a property outside the six known names is
  rejected with the unexpected-property error, which carries the keyframe index and
  the unexpected names as \<^verbatim>\<open>Object.getOwnPropertyNames\<close> lists them; the hint for
  \<^verbatim>\<open>keyTime\<close> is appended exactly when a property is named \<^verbatim>\<open>time\<close>, the hint for
  \<^verbatim>\<open>keyValue\<close> exactly when one is named \<^verbatim>\<open>value\<close>. In the construction form removing
  such properties does not change the result.
\<close>

lemma validateKeyframe_unknown_field:
  assumes "\<not> set (map fst key) \<subseteq> set validProps"
  shows "validateKeyframe key index =
           Inl (UnexpectedProperty index
                  (ownPropertyNames (filter (\<lambda>n. n \<notin> set validProps) (map fst key)))
                  (''time'' \<in> set (map fst key)) (''value'' \<in> set (map fst key)))
         \<and> ownPropertyNames (filter (\<lambda>n. n \<notin> set validProps) (map fst key)) \<noteq> []
         \<and> AG_validateKeyframe key index =
             AG_validateKeyframe (filter (\<lambda>(n, v). n \<in> set validProps) key) index"
proof -
  let ?names = "ownPropertyNames (filter (\<lambda>n. n \<notin> set validProps) (map fst key))"
  from assms have "filter (\<lambda>n. n \<notin> set validProps) (map fst key) \<noteq> []"
    by (auto simp: filter_empty_conv)
  then have ne: "?names \<noteq> []" by (simp add: ownPropertyNames_eq_Nil)
  have t: "(''time'' \<in> set ?names) = (''time'' \<in> set (map fst key))"
    by (auto simp: set_ownPropertyNames validProps_def)
  have v: "(''value'' \<in> set ?names) = (''value'' \<in> set (map fst key))"
    by (auto simp: set_ownPropertyNames validProps_def)
  have n: "map fst (filter (\<lambda>(n, v). n \<notin> set validProps) key) =
             filter (\<lambda>n. n \<notin> set validProps) (map fst key)"
    by (rule rest_names)
  from ne have "validateKeyframe key index =
      Inl (UnexpectedProperty index ?names (''time'' \<in> set ?names) (''value'' \<in> set ?names))"
    by (simp add: validateKeyframe_def Let_def n)
  with t v ne show ?thesis
    by (simp add: AG_validateKeyframe_ignores_extras)
qed

text \<open>An array index among the unexpected names is listed first.\<close>

lemma validateKeyframe_unknown_field_order:
  "validateKeyframe [(''keyTime'', Num 0), (''zeta'', Num 1), (''2'', Num 2), (''value'', Num 7)] 4 =
     Inl (UnexpectedProperty 4 [''2'', ''zeta'', ''value''] False True)"
  by (simp add: validateKeyframe_def getProp_def withDefault_def validProps_def
      ownPropertyNames_def isArrayIndex_def isDigit_def indexValue_def)

subsection \<open>The easing constructor\<close>

text \<open>
  C8. When both handles lie in [0,1] and \<open>x1 = y1\<close>, \<open>x2 = y2\<close>, \<^verbatim>\<open>bezier\<close> returns
  \<^verbatim>\<open>LinearEasing\<close>, the function that returns its argument; the sample table and the
  solver belong to the other result, \<open>bezierEasing\<close>. In particular this holds for
  \<^verbatim>\<open>bezier(x, x, x, x)\<close> with \<open>x\<close> in [0,1].
\<close>

theorem bezier_linear_shortcut:
  assumes "0 \<le> x1" and "x1 \<le> 1" and "0 \<le> x2" and "x2 \<le> 1" and "x1 = y1" and "x2 = y2"
  shows "bezier x1 y1 x2 y2 = Inr LinearEasing \<and> (\<forall>t. LinearEasing t = t)"
  using assms by (simp add: bezier_def LinearEasing_def)

theorem bezier_linear_shortcut_witness:
  "(0::real) \<le> 1 / 4 \<and> (1::real) / 4 \<le> 1
   \<and> bezier (1 / 4) (1 / 4) (1 / 4) (1 / 4) = Inr LinearEasing \<and> (\<forall>t. LinearEasing t = t)"
  using bezier_linear_shortcut [of "1 / 4" "1 / 4" "1 / 4" "1 / 4"] by simp

text \<open>
  C9. When \<open>x1\<close> or \<open>x2\<close> lies outside [0,1], \<^verbatim>\<open>bezier\<close> throws the range error and
  returns no easing function, whatever \<open>y1\<close> and \<open>y2\<close> are; so does
  \<^verbatim>\<open>bezier(1.5, 0, 0.5, 1)\<close>.
\<close>

theorem bezier_rejects_out_of_range:
  assumes "x1 < 0 \<or> 1 < x1 \<or> x2 < 0 \<or> 1 < x2"
  shows "bezier x1 y1 x2 y2 = Inl BezierRangeError"
  using assms by (auto simp: bezier_def)

theorem bezier_rejects_out_of_range_witness:
  "((3::real) / 2 < 0 \<or> 1 < (3::real) / 2 \<or> (1::real) / 2 < 0 \<or> 1 < (1::real) / 2)
   \<and> bezier (3 / 2) 0 (1 / 2) 1 = Inl BezierRangeError"
  using bezier_rejects_out_of_range [of "3 / 2" "1 / 2" 0 1] by simp

subsection \<open>Evaluation\<close>

text \<open>Unfolding the entry points on concrete keyframe lists.\<close>

lemmas run_defs =
  animate_def AnimGroup_anim_def AnimGroup_def validKeys_def validateKeyframe_def
  AG_validateKeyframe_def getProp_def withDefault_def validProps_def
  animateBetweenKeys_def AG_animateBetweenKeys_def getCurrentKeyNum_def
  getCurrentKeyNumLoop.simps keyProp_def Let_def

text \<open>
  C2. On the keyframes \<^verbatim>\<open>[{keyTime: 0, keyValue: 0}, {keyTime: 10, keyValue: 100}]\<close> the
  one-shot form with the interpolator \<^verbatim>\<open>linear\<close> returns 50 at time 5 and 25 at time
  2.5. The construction form returns \<^verbatim>\<open>undefined\<close> at both times: its shortcut (lines
  249-251) compares \<^verbatim>\<open>curKey.value\<close> with \<^verbatim>\<open>nextKey.value\<close>, which both keys lack,
  where the one-shot form (line 67) compares \<^verbatim>\<open>keyValue\<close>.
\<close>

theorem ramp_one_shot_50_construction_undefined:
  "animate Undefined
     [[(''keyTime'', Num 0), (''keyValue'', Num 0)], [(''keyTime'', Num 10), (''keyValue'', Num 100)]]
     (Some \<lparr>inputTime = Num 5, interpolator = Some linear_interpolator\<rparr>) = Inr (Num 50)
   \<and> animate Undefined
     [[(''keyTime'', Num 0), (''keyValue'', Num 0)], [(''keyTime'', Num 10), (''keyValue'', Num 100)]]
     (Some \<lparr>inputTime = Num (5 / 2), interpolator = Some linear_interpolator\<rparr>) = Inr (Num 25)
   \<and> AnimGroup_anim
     [[(''keyTime'', Num 0), (''keyValue'', Num 0)], [(''keyTime'', Num 10), (''keyValue'', Num 100)]]
     (Num 5) = Inr Undefined
   \<and> AnimGroup_anim
     [[(''keyTime'', Num 0), (''keyValue'', Num 0)], [(''keyTime'', Num 10), (''keyValue'', Num 100)]]
     (Num (5 / 2)) = Inr Undefined"
  by (simp add: run_defs linear_interpolator_def animateValueFromProgress_def)

text \<open>
  The same ramp with handles that make \<^verbatim>\<open>bezier\<close> return \<^verbatim>\<open>LinearEasing\<close>
  (\<open>easeOut = velocityOut\<close> on the first key, \<open>easeIn = velocityIn\<close> on the second): the
  one-shot form returns 50 at time 5, the construction form \<^verbatim>\<open>undefined\<close>.
\<close>

lemma ramp_identity_handles:
  "animate Undefined
     [[(''keyTime'', Num 0), (''keyValue'', Num 0), (''easeOut'', Num 0), (''velocityOut'', Num 0)],
      [(''keyTime'', Num 10), (''keyValue'', Num 100), (''easeIn'', Num 0), (''velocityIn'', Num 0)]]
     (Some \<lparr>inputTime = Num 5, interpolator = None\<rparr>) = Inr (Num 50)
   \<and> AnimGroup_anim
     [[(''keyTime'', Num 0), (''keyValue'', Num 0), (''easeOut'', Num 0), (''velocityOut'', Num 0)],
      [(''keyTime'', Num 10), (''keyValue'', Num 100), (''easeIn'', Num 0), (''velocityIn'', Num 0)]]
     (Num 5) = Inr Undefined"
  by (simp add: run_defs bezier_def LinearEasing_def animateValueFromProgress_def)

text \<open>
  C10. In the construction form, for keys built from two or more validated keyframes
  and a time strictly between the first and the last key time, \<^verbatim>\<open>anim(time)\<close> returns
  \<^verbatim>\<open>undefined\<close>: both keys lack the property \<^verbatim>\<open>value\<close> (\<open>keyProp_value\<close>), the comparison
  holds, and the code after it, \<^verbatim>\<open>bezier\<close> included, is not run.
\<close>

theorem AnimGroup_anim_interior_undefined:
  assumes "AnimGroup inputKeyframes = Inr keys" and "2 \<le> length keys"
    and "keyTime (hd keys) < t" and "t < keyTime (last keys)"
  shows "AnimGroup_anim inputKeyframes (Num t) = Inr Undefined"
proof -
  from assms(2) have ne: "keys \<noteq> []" by auto
  with assms(3,4) have "keyTime (keys ! 0) < t" and "t < keyTime (keys ! (length keys - 1))"
    by (simp_all add: hd_conv_nth last_conv_nth)
  with ne have "AG_animateBetweenKeys keys (Num t) = Inr Undefined"
    by (rule AG_interior_undefined)
  with assms(1) show ?thesis by (simp add: AnimGroup_anim_validated)
qed

theorem AnimGroup_anim_interior_undefined_witness:
  "AnimGroup [[(''keyTime'', Num 0), (''keyValue'', Arr [0, 0]), (''easeOut'', Num 200)],
              [(''keyTime'', Num 8), (''keyValue'', Arr [3, 4])]] =
     Inr [\<lparr>keyTime = 0, keyValue = Arr [0, 0], easeIn = 33, easeOut = 200, velocityIn = 0, velocityOut = 0\<rparr>,
          \<lparr>keyTime = 8, keyValue = Arr [3, 4], easeIn = 33, easeOut = 33, velocityIn = 0, velocityOut = 0\<rparr>]
   \<and> AnimGroup_anim [[(''keyTime'', Num 0), (''keyValue'', Arr [0, 0]), (''easeOut'', Num 200)],
                      [(''keyTime'', Num 8), (''keyValue'', Arr [3, 4])]] (Num 6) = Inr Undefined"
proof -
  have v: "AnimGroup [[(''keyTime'', Num 0), (''keyValue'', Arr [0, 0]), (''easeOut'', Num 200)],
              [(''keyTime'', Num 8), (''keyValue'', Arr [3, 4])]] =
     Inr [\<lparr>keyTime = 0, keyValue = Arr [0, 0], easeIn = 33, easeOut = 200, velocityIn = 0, velocityOut = 0\<rparr>,
          \<lparr>keyTime = 8, keyValue = Arr [3, 4], easeIn = 33, easeOut = 33, velocityIn = 0, velocityOut = 0\<rparr>]"
    by (simp add: AnimGroup_def validKeys_def AG_validateKeyframe_def getProp_def withDefault_def)
  from AnimGroup_anim_interior_undefined [OF v, of 6] v show ?thesis by simp
qed

text \<open>
  Every call of \<^verbatim>\<open>anim\<close> ends at the argument checks, at the read of the first key, at
  a boundary return or at the shortcut: the code of \<^verbatim>\<open>part_000\<close> from line 253 on
  (\<^verbatim>\<open>bezier\<close>, the progress and both interpolation functions) is never run.
\<close>

lemma AG_animateBetweenKeys_results:
  "AG_animateBetweenKeys keys timeArg = Inl (RequiredArgumentError ''time'' (InFunction ''.anim inputs''))
   \<or> AG_animateBetweenKeys keys timeArg =
       Inl (TypeErrorMessage (OfValue timeArg) (OneType ''number'') (getType timeArg))
   \<or> AG_animateBetweenKeys keys timeArg = Inl HostTypeError
   \<or> AG_animateBetweenKeys keys timeArg = Inr (keyValue (hd keys))
   \<or> AG_animateBetweenKeys keys timeArg = Inr (keyValue (last keys))
   \<or> AG_animateBetweenKeys keys timeArg = Inr Undefined"
proof (cases timeArg)
  case (Num t)
  show ?thesis
  proof (cases "keys = []")
    case True
    with Num show ?thesis by (simp add: AG_animateBetweenKeys_def)
  next
    case False
    consider "t \<le> keyTime (hd keys)"
      | "keyTime (hd keys) < t" and "keyTime (last keys) \<le> t"
      | "keyTime (hd keys) < t" and "t < keyTime (last keys)"
      by linarith
    then show ?thesis
    proof cases
      case 1
      with False Num show ?thesis by (simp add: AG_animateBetweenKeys_first)
    next
      case 2
      with False Num show ?thesis by (simp add: AG_animateBetweenKeys_last)
    next
      case 3
      with False have "keyTime (keys ! 0) < t" and "t < keyTime (keys ! (length keys - 1))"
        by (simp_all add: hd_conv_nth last_conv_nth)
      with False have "AG_animateBetweenKeys keys (Num t) = Inr Undefined"
        by (rule AG_interior_undefined)
      with Num show ?thesis by simp
    qed
  qed
qed (simp_all add: AG_animateBetweenKeys_def)

subsection \<open>Boundaries and exact hits\<close>

text \<open>
  C3, as stated, fails when the time is at or before the first key and at or after the
  last one, that is when every key time equals the query time: the test against the
  first key comes first. With the keys \<^verbatim>\<open>{keyTime: 5, keyValue: 1}\<close> and
  \<^verbatim>\<open>{keyTime: 5, keyValue: 2}\<close> both forms return 1 at time 5, although the last key
  has time 5 and value 2.
\<close>

theorem boundary_first_wins:
  "validKeys validateKeyframe
     [[(''keyTime'', Num 5), (''keyValue'', Num 1)], [(''keyTime'', Num 5), (''keyValue'', Num 2)]] =
     Inr [\<lparr>keyTime = 5, keyValue = Num 1, easeIn = 33, easeOut = 33, velocityIn = 0, velocityOut = 0\<rparr>,
          \<lparr>keyTime = 5, keyValue = Num 2, easeIn = 33, easeOut = 33, velocityIn = 0, velocityOut = 0\<rparr>]
   \<and> animate Undefined
     [[(''keyTime'', Num 5), (''keyValue'', Num 1)], [(''keyTime'', Num 5), (''keyValue'', Num 2)]]
     (Some \<lparr>inputTime = Num 5, interpolator = None\<rparr>) = Inr (Num 1)
   \<and> AnimGroup_anim
     [[(''keyTime'', Num 5), (''keyValue'', Num 1)], [(''keyTime'', Num 5), (''keyValue'', Num 2)]]
     (Num 5) = Inr (Num 1)"
  by (simp add: run_defs)

text \<open>
  C3, amended. For every keyframe list that validates to at least one key and every
  time \<open>t\<close>, in both forms: if \<open>t\<close> is at or before the first sorted key's time the
  result is exactly that key's value; otherwise, if \<open>t\<close> is at or after the last key's
  time, the result is exactly the last key's value. Neither case reads the handles or
  the interpolator.
\<close>

theorem boundary_values:
  "(validKeys validateKeyframe ds = Inr keys \<and> keys \<noteq> [] \<longrightarrow>
      (t \<le> keyTime (hd keys) \<longrightarrow>
         animate host ds (Some \<lparr>inputTime = Num t, interpolator = ip\<rparr>) = Inr (keyValue (hd keys)))
    \<and> (keyTime (hd keys) < t \<and> keyTime (last keys) \<le> t \<longrightarrow>
         animate host ds (Some \<lparr>inputTime = Num t, interpolator = ip\<rparr>) = Inr (keyValue (last keys))))
   \<and> (AnimGroup ds' = Inr keys' \<and> keys' \<noteq> [] \<longrightarrow>
      (t \<le> keyTime (hd keys') \<longrightarrow> AnimGroup_anim ds' (Num t) = Inr (keyValue (hd keys')))
    \<and> (keyTime (hd keys') < t \<and> keyTime (last keys') \<le> t \<longrightarrow>
         AnimGroup_anim ds' (Num t) = Inr (keyValue (last keys'))))"
  by (simp add: animate_validated AnimGroup_anim_validated animateBetweenKeys_first
      animateBetweenKeys_last AG_animateBetweenKeys_first AG_animateBetweenKeys_last)

theorem boundary_values_witness:
  "animate Undefined
     [[(''keyTime'', Num 10), (''keyValue'', Num 100)], [(''keyTime'', Num 0), (''keyValue'', Num 7)]]
     (Some \<lparr>inputTime = Num (- 1), interpolator = None\<rparr>) = Inr (Num 7)
   \<and> animate Undefined
     [[(''keyTime'', Num 10), (''keyValue'', Num 100)], [(''keyTime'', Num 0), (''keyValue'', Num 7)]]
     (Some \<lparr>inputTime = Num 11, interpolator = None\<rparr>) = Inr (Num 100)
   \<and> AnimGroup_anim
     [[(''keyTime'', Num 10), (''keyValue'', Num 100)], [(''keyTime'', Num 0), (''keyValue'', Num 7)]]
     (Num (- 1)) = Inr (Num 7)
   \<and> AnimGroup_anim
     [[(''keyTime'', Num 10), (''keyValue'', Num 100)], [(''keyTime'', Num 0), (''keyValue'', Num 7)]]
     (Num 11) = Inr (Num 100)"
proof -
  let ?ds = "[[(''keyTime'', Num 10), (''keyValue'', Num 100)], [(''keyTime'', Num 0), (''keyValue'', Num 7)]]"
  let ?keys = "[\<lparr>keyTime = 0, keyValue = Num 7, easeIn = 33, easeOut = 33, velocityIn = 0, velocityOut = 0\<rparr>,
                \<lparr>keyTime = 10, keyValue = Num 100, easeIn = 33, easeOut = 33, velocityIn = 0, velocityOut = 0\<rparr>]"
  have v: "validKeys validateKeyframe ?ds = Inr ?keys"
    by (simp add: validKeys_def validateKeyframe_def getProp_def withDefault_def validProps_def)
  have g: "AnimGroup ?ds = Inr ?keys"
    by (simp add: AnimGroup_def validKeys_def AG_validateKeyframe_def getProp_def withDefault_def)
  from boundary_values [of ?ds ?keys "- 1" Undefined None ?ds ?keys]
    boundary_values [of ?ds ?keys 11 Undefined None ?ds ?keys] v g
  show ?thesis by simp
qed

text \<open>
  C4, as stated, fails in two places. In the one-shot form, when two keys share a key
  time the locator stops at the later one: with keys at times 0, 5, 5, 10 and values
  0, 10, 20, 0 the result at time 5 is 20, not the value 10 of the first key at time 5.
  In the construction form the result at an interior key time is \<^verbatim>\<open>undefined\<close>.
\<close>

theorem exact_hit_later_duplicate_wins:
  "validKeys validateKeyframe
     [[(''keyTime'', Num 0), (''keyValue'', Num 0)], [(''keyTime'', Num 5), (''keyValue'', Num 10)],
      [(''keyTime'', Num 5), (''keyValue'', Num 20)], [(''keyTime'', Num 10), (''keyValue'', Num 0)]] =
     Inr [\<lparr>keyTime = 0, keyValue = Num 0, easeIn = 33, easeOut = 33, velocityIn = 0, velocityOut = 0\<rparr>,
          \<lparr>keyTime = 5, keyValue = Num 10, easeIn = 33, easeOut = 33, velocityIn = 0, velocityOut = 0\<rparr>,
          \<lparr>keyTime = 5, keyValue = Num 20, easeIn = 33, easeOut = 33, velocityIn = 0, velocityOut = 0\<rparr>,
          \<lparr>keyTime = 10, keyValue = Num 0, easeIn = 33, easeOut = 33, velocityIn = 0, velocityOut = 0\<rparr>]
   \<and> animate Undefined
     [[(''keyTime'', Num 0), (''keyValue'', Num 0)], [(''keyTime'', Num 5), (''keyValue'', Num 10)],
      [(''keyTime'', Num 5), (''keyValue'', Num 20)], [(''keyTime'', Num 10), (''keyValue'', Num 0)]]
     (Some \<lparr>inputTime = Num 5, interpolator = None\<rparr>) = Inr (Num 20)
   \<and> AnimGroup_anim
     [[(''keyTime'', Num 0), (''keyValue'', Num 0)], [(''keyTime'', Num 5), (''keyValue'', Num 10)],
      [(''keyTime'', Num 10), (''keyValue'', Num 0)]]
     (Num 5) = Inr Undefined"
  by (simp add: run_defs)

text \<open>
  C4, amended. In the one-shot form, for every keyframe list that validates, and every
  key \<open>k\<close> of the sorted keys whose time is after the first key's time and strictly
  before the time of the key that follows it (so \<open>k\<close> is interior and is the last key at
  its time; every interior key is, when the key times are distinct), the result at
  time \<open>keyTime k\<close> is exactly \<open>keyValue k\<close>, whatever the handles and the interpolator.
\<close>

theorem animate_exact_hit:
  assumes "validKeys validateKeyframe ds = Inr keys" and "Suc i < length keys"
    and "keyTime (hd keys) < keyTime (keys ! i)"
    and "keyTime (keys ! i) < keyTime (keys ! Suc i)"
  shows "animate host ds (Some \<lparr>inputTime = Num (keyTime (keys ! i)), interpolator = ip\<rparr>) =
           Inr (keyValue (keys ! i))"
proof -
  from assms(1) have s: "sorted (map keyTime keys)" by (rule validKeys_sorted)
  from assms(2) have "keys \<noteq> []" by auto
  with assms(3) have f: "keyTime (keys ! 0) < keyTime (keys ! i)" by (simp add: hd_conv_nth)
  note seg = segment_facts [OF s assms(2) order_refl assms(4) f]
  have "animateBetweenKeys ip keys (keyTime (keys ! i)) = Inr (keyValue (keys ! i))"
    using assms(2) seg by (simp add: animateBetweenKeys_def getCurrentKeyNum_def Let_def)
  with assms(1) show ?thesis by (simp add: animate_validated)
qed

theorem animate_exact_hit_witness:
  "animate Undefined
     [[(''keyTime'', Num 0), (''keyValue'', Num 0)],
      [(''keyTime'', Num 5), (''keyValue'', Num 10), (''easeOut'', Num 200)],
      [(''keyTime'', Num 10), (''keyValue'', Num 0)]]
     (Some \<lparr>inputTime = Num 5, interpolator = None\<rparr>) = Inr (Num 10)"
proof -
  let ?ds = "[[(''keyTime'', Num 0), (''keyValue'', Num 0)],
      [(''keyTime'', Num 5), (''keyValue'', Num 10), (''easeOut'', Num 200)],
      [(''keyTime'', Num 10), (''keyValue'', Num 0)]]"
  let ?keys = "[\<lparr>keyTime = 0, keyValue = Num 0, easeIn = 33, easeOut = 33, velocityIn = 0, velocityOut = 0\<rparr>,
                \<lparr>keyTime = 5, keyValue = Num 10, easeIn = 33, easeOut = 200, velocityIn = 0, velocityOut = 0\<rparr>,
                \<lparr>keyTime = 10, keyValue = Num 0, easeIn = 33, easeOut = 33, velocityIn = 0, velocityOut = 0\<rparr>]"
  have v: "validKeys validateKeyframe ?ds = Inr ?keys"
    by (simp add: validKeys_def validateKeyframe_def getProp_def withDefault_def validProps_def)
  have "animate Undefined ?ds
          (Some \<lparr>inputTime = Num (keyTime (?keys ! 1)), interpolator = None\<rparr>) =
        Inr (keyValue (?keys ! 1))"
    by (rule animate_exact_hit [OF v]) simp_all
  then show ?thesis by simp
qed

subsection \<open>Mismatched values inside a segment\<close>

lemma first_le_nth:
  assumes "sorted (map keyTime keys)" and "c < length keys"
  shows "keyTime (keys ! 0) \<le> keyTime (keys ! c)"
proof -
  from assms(2) have "0 < length keys" by (cases keys) simp_all
  with assms show ?thesis
    using sorted_nth_mono [of "map keyTime keys" 0 c] by simp
qed

text \<open>With both handles in [0,1] \<^verbatim>\<open>bezier\<close> returns an easing function.\<close>

lemma bezier_in_range:
  assumes "0 \<le> x1" and "x1 \<le> 1" and "0 \<le> x2" and "x2 \<le> 1"
  shows "\<exists>easing. bezier x1 y1 x2 y2 = Inr easing"
  using assms by (simp add: bezier_def)

text \<open>
  C5, as stated, fails in two places. In the one-shot form the easing function is built
  before the values are looked at, so with \<^verbatim>\<open>easeOut: 200\<close> on the current key the range
  error of \<^verbatim>\<open>bezier\<close> comes first. In the construction form the result is
  \<^verbatim>\<open>undefined\<close>, and its \<^verbatim>\<open>animateArrayFromProgress\<close> has no length check: on
  \<^verbatim>\<open>[0, 0]\<close> and \<^verbatim>\<open>[0, 0, 0]\<close> it returns a vector of length two.
\<close>

theorem dimension_mismatch_not_raised:
  "animate Undefined
     [[(''keyTime'', Num 0), (''keyValue'', Arr [0, 0]), (''easeOut'', Num 200)],
      [(''keyTime'', Num 10), (''keyValue'', Arr [0, 0, 0])]]
     (Some \<lparr>inputTime = Num 5, interpolator = None\<rparr>) = Inl BezierRangeError
   \<and> AnimGroup_anim
     [[(''keyTime'', Num 0), (''keyValue'', Arr [0, 0])],
      [(''keyTime'', Num 10), (''keyValue'', Arr [0, 0, 0])]]
     (Num 5) = Inr Undefined
   \<and> AG_animateArrayFromProgress (Arr [0, 0]) (Arr [0, 0, 0]) (1 / 2) = Inr (Arr [0, 0])"
  by (simp add: run_defs bezier_def upt_rec)

text \<open>
  C5, amended. In the one-shot form, for every keyframe list that validates, every
  pair of adjacent sorted keys whose values are vectors of unequal length, and every
  time strictly between their key times: the result is the same-dimension error, which
  carries the segment index and both lengths, and no vector is returned, provided the
  easing step before it succeeds: an interpolator is given, or the two handles that
  are passed to \<^verbatim>\<open>bezier\<close> as \<open>x1\<close> and \<open>x2\<close>, \<^verbatim>\<open>curKey.easeOut / 100\<close> and
  \<^verbatim>\<open>1 - nextKey.easeIn / 100\<close>, lie in [0,1].
\<close>

theorem animate_dimension_mismatch:
  assumes "validKeys validateKeyframe ds = Inr keys" and "Suc c < length keys"
    and "keyValue (keys ! c) = Arr a" and "keyValue (keys ! Suc c) = Arr b"
    and "length a \<noteq> length b"
    and "keyTime (keys ! c) < t" and "t < keyTime (keys ! Suc c)"
    and "ip = None \<longrightarrow>
           0 \<le> easeOut (keys ! c) / 100 \<and> easeOut (keys ! c) / 100 \<le> 1
           \<and> 0 \<le> 1 - easeIn (keys ! Suc c) / 100 \<and> 1 - easeIn (keys ! Suc c) / 100 \<le> 1"
  shows "animate host ds (Some \<lparr>inputTime = Num t, interpolator = ip\<rparr>) =
           Inl (SameDimensionError c (length a) (length b))"
proof -
  from assms(1) have s: "sorted (map keyTime keys)" by (rule validKeys_sorted)
  from s assms(2) have "keyTime (keys ! 0) \<le> keyTime (keys ! c)"
    by (intro first_le_nth) simp_all
  with assms(6) have f: "keyTime (keys ! 0) < t" by simp
  from assms(6) have le: "keyTime (keys ! c) \<le> t" and ne: "t \<noteq> keyTime (keys ! c)" by simp_all
  note seg = segment_facts [OF s assms(2) le assms(7) f]
  have "animateBetweenKeys ip keys t = Inl (SameDimensionError c (length a) (length b))"
  proof (cases ip)
    case None
    with assms(8) obtain easing where
      "bezier (easeOut (keys ! c) / 100) (velocityOut (keys ! c) / 100)
         (1 - easeIn (keys ! Suc c) / 100) (1 - velocityIn (keys ! Suc c) / 100) = Inr easing"
      using bezier_in_range by blast
    with None assms(2-5) seg ne show ?thesis
      by (simp add: animateBetweenKeys_def getCurrentKeyNum_def Let_def animateArrayFromProgress_def)
  next
    case (Some f)
    with assms(2-5) seg ne show ?thesis
      by (simp add: animateBetweenKeys_def getCurrentKeyNum_def Let_def animateArrayFromProgress_def)
  qed
  with assms(1) show ?thesis by (simp add: animate_validated)
qed

theorem animate_dimension_mismatch_witness:
  "animate Undefined
     [[(''keyTime'', Num 0), (''keyValue'', Arr [0, 0])],
      [(''keyTime'', Num 10), (''keyValue'', Arr [0, 0, 0])]]
     (Some \<lparr>inputTime = Num 5, interpolator = None\<rparr>) = Inl (SameDimensionError 0 2 3)"
proof -
  let ?ds = "[[(''keyTime'', Num 0), (''keyValue'', Arr [0, 0])],
      [(''keyTime'', Num 10), (''keyValue'', Arr [0, 0, 0])]]"
  let ?keys = "[\<lparr>keyTime = 0, keyValue = Arr [0, 0], easeIn = 33, easeOut = 33, velocityIn = 0, velocityOut = 0\<rparr>,
                \<lparr>keyTime = 10, keyValue = Arr [0, 0, 0], easeIn = 33, easeOut = 33, velocityIn = 0, velocityOut = 0\<rparr>]"
  have v: "validKeys validateKeyframe ?ds = Inr ?keys"
    by (simp add: validKeys_def validateKeyframe_def getProp_def withDefault_def validProps_def)
  have "animate Undefined ?ds (Some \<lparr>inputTime = Num 5, interpolator = None\<rparr>) =
          Inl (SameDimensionError 0 (length [0, 0 :: real]) (length [0, 0, 0 :: real]))"
    by (rule animate_dimension_mismatch [OF v]) simp_all
  then show ?thesis by simp
qed

text \<open>
  C6, as stated, fails in two places. In the one-shot form, with \<^verbatim>\<open>easeOut: 200\<close> on the
  current key the range error of \<^verbatim>\<open>bezier\<close> comes before the type test. In the
  construction form the result is \<^verbatim>\<open>undefined\<close>.
\<close>

theorem type_mismatch_not_raised:
  "animate Undefined
     [[(''keyTime'', Num 0), (''keyValue'', Arr [0, 0]), (''easeOut'', Num 200)],
      [(''keyTime'', Num 10), (''keyValue'', Num 1)]]
     (Some \<lparr>inputTime = Num 5, interpolator = None\<rparr>) = Inl BezierRangeError
   \<and> AnimGroup_anim
     [[(''keyTime'', Num 0), (''keyValue'', Arr [0, 0])],
      [(''keyTime'', Num 10), (''keyValue'', Num 1)]]
     (Num 5) = Inr Undefined"
  by (simp add: run_defs bezier_def)

text \<open>
  C6, amended. In the one-shot form, for every keyframe list that validates, every
  pair of adjacent sorted keys of which one value is a vector and the other a number,
  and every time strictly between their key times: the result is the same-type error,
  which carries the segment index and the two observed types in order, and no value is
  returned, provided the easing step before it succeeds: an interpolator is given, or
  the two handles that are passed to \<^verbatim>\<open>bezier\<close> as \<open>x1\<close> and \<open>x2\<close>,
  \<^verbatim>\<open>curKey.easeOut / 100\<close> and \<^verbatim>\<open>1 - nextKey.easeIn / 100\<close>, lie in [0,1].
\<close>

theorem animate_type_mismatch:
  assumes "validKeys validateKeyframe ds = Inr keys" and "Suc c < length keys"
    and "(\<exists>a x. keyValue (keys ! c) = Arr a \<and> keyValue (keys ! Suc c) = Num x)
         \<or> (\<exists>a x. keyValue (keys ! c) = Num x \<and> keyValue (keys ! Suc c) = Arr a)"
    and "keyTime (keys ! c) < t" and "t < keyTime (keys ! Suc c)"
    and "ip = None \<longrightarrow>
           0 \<le> easeOut (keys ! c) / 100 \<and> easeOut (keys ! c) / 100 \<le> 1
           \<and> 0 \<le> 1 - easeIn (keys ! Suc c) / 100 \<and> 1 - easeIn (keys ! Suc c) / 100 \<le> 1"
  shows "animate host ds (Some \<lparr>inputTime = Num t, interpolator = ip\<rparr>) =
           Inl (SameTypeError c (getType (keyValue (keys ! c))) (getType (keyValue (keys ! Suc c))))
         \<and> {getType (keyValue (keys ! c)), getType (keyValue (keys ! Suc c))} = {''array'', ''number''}"
proof -
  from assms(1) have s: "sorted (map keyTime keys)" by (rule validKeys_sorted)
  from s assms(2) have "keyTime (keys ! 0) \<le> keyTime (keys ! c)"
    by (intro first_le_nth) simp_all
  with assms(4) have f: "keyTime (keys ! 0) < t" by simp
  from assms(4) have le: "keyTime (keys ! c) \<le> t" and ne: "t \<noteq> keyTime (keys ! c)" by simp_all
  note seg = segment_facts [OF s assms(2) le assms(5) f]
  have "animateBetweenKeys ip keys t =
          Inl (SameTypeError c (getType (keyValue (keys ! c))) (getType (keyValue (keys ! Suc c))))"
  proof (cases ip)
    case None
    with assms(6) obtain easing where
      "bezier (easeOut (keys ! c) / 100) (velocityOut (keys ! c) / 100)
         (1 - easeIn (keys ! Suc c) / 100) (1 - velocityIn (keys ! Suc c) / 100) = Inr easing"
      using bezier_in_range by blast
    with None assms(2,3) seg ne show ?thesis
      by (auto simp: animateBetweenKeys_def getCurrentKeyNum_def Let_def)
  next
    case (Some f)
    with assms(2,3) seg ne show ?thesis
      by (auto simp: animateBetweenKeys_def getCurrentKeyNum_def Let_def)
  qed
  moreover from assms(3)
  have "{getType (keyValue (keys ! c)), getType (keyValue (keys ! Suc c))} = {''array'', ''number''}"
    by auto
  ultimately show ?thesis using assms(1) by (simp add: animate_validated)
qed

theorem animate_type_mismatch_witness:
  "animate Undefined
     [[(''keyTime'', Num 0), (''keyValue'', Num 1)],
      [(''keyTime'', Num 10), (''keyValue'', Arr [0, 0])]]
     (Some \<lparr>inputTime = Num 5, interpolator = Some linear_interpolator\<rparr>) =
     Inl (SameTypeError 0 ''number'' ''array'')"
proof -
  let ?ds = "[[(''keyTime'', Num 0), (''keyValue'', Num 1)],
      [(''keyTime'', Num 10), (''keyValue'', Arr [0, 0])]]"
  let ?keys = "[\<lparr>keyTime = 0, keyValue = Num 1, easeIn = 33, easeOut = 33, velocityIn = 0, velocityOut = 0\<rparr>,
                \<lparr>keyTime = 10, keyValue = Arr [0, 0], easeIn = 33, easeOut = 33, velocityIn = 0, velocityOut = 0\<rparr>]"
  have v: "validKeys validateKeyframe ?ds = Inr ?keys"
    by (simp add: validKeys_def validateKeyframe_def getProp_def withDefault_def validProps_def)
  have "animate Undefined ?ds (Some \<lparr>inputTime = Num 5, interpolator = Some linear_interpolator\<rparr>) =
          Inl (SameTypeError 0 (getType (keyValue (?keys ! 0))) (getType (keyValue (?keys ! Suc 0))))
        \<and> {getType (keyValue (?keys ! 0)), getType (keyValue (?keys ! Suc 0))} = {''array'', ''number''}"
    by (rule animate_type_mismatch [OF v]) simp_all
  then show ?thesis by simp
qed

end
